theory Spec2Isabelle
  imports Main "HOL-Library.Sublist"
begin

section \<open>The collaborators of the training engines\<close>

text \<open>
  The two engines of \<^verbatim>\<open>torchreid/engine/image\<close> orchestrate objects they do not
  define: the model, the optimizer, the learning-rate scheduler, the summary writer, the
  loss criteria, the meters and a few module-level functions. Each call into such an
  object acts on a world \<open>'w\<close> (parameters, gradients, clock, console, log files) and
  either raises an exception \<open>'e\<close> or returns a value together with the new world.

  Type variables used throughout: \<open>'w\<close> the world, \<open>'e\<close> the exceptions raised by
  collaborators, \<open>'t\<close> tensors, \<open>'a\<close> Python numbers and scalar (0-dim) tensors,
  \<open>'m\<close> the state of an \<^verbatim>\<open>AverageMeter\<close>, \<open>'d\<close> the items a train loader yields.
  The number type is only asked to have the operations the code applies to it
  (\<open>+\<close>, \<open>*\<close>, \<open>-\<close>, \<open>1\<close>), with no algebraic law, so that floating-point numbers are
  an instance.
\<close>

type_synonym ('w, 'e, 'r) action = "'w \<Rightarrow> 'e + 'r \<times> 'w"

record data_manager =
  num_train_pids :: int

text \<open>\<^verbatim>\<open>nn.Module\<close>: \<^verbatim>\<open>model.train()\<close> and \<^verbatim>\<open>model(...)\<close>; the type \<open>'f\<close> of the
  forward call differs between the two engines.\<close>

record ('w, 'e, 'f) module =
  train :: "('w, 'e, unit) action"
  forward :: 'f

text \<open>The optimizer; \<open>lr\<close> is the read \<^verbatim>\<open>optimizer.param_groups[0]['lr']\<close>.\<close>

record ('w, 'e, 'a) optimizer =
  zero_grad :: "('w, 'e, unit) action"
  step :: "('w, 'e, unit) action"
  lr :: "('w, 'e, 'a) action"

record ('w, 'e) lr_scheduler =
  step :: "('w, 'e, unit) action"

record ('w, 'e, 't, 'a) summary_writer =
  add_scalar :: "string \<Rightarrow> 'a \<Rightarrow> int \<Rightarrow> ('w, 'e, unit) action"
  add_histogram :: "string \<Rightarrow> 't \<Rightarrow> int \<Rightarrow> ('w, 'e, unit) action"

text \<open>A train loader: what \<^verbatim>\<open>len(trainloader)\<close> answers and the items its iteration
  yields. The two are kept apart, as the code reads them apart.\<close>

record 'd trainloader =
  len :: int
  batches :: "'d list"

text \<open>The loss objects built by the constructors, as the class and its arguments.\<close>

datatype 'a criterion =
    TripletLoss 'a
  | CrossEntropyLoss int bool bool
  | ClusterLoss
  | TripletLossWithDependency 'a
  | NPairsLoss bool 'a 'a 'a

text \<open>The local meter variables of \<^verbatim>\<open>train\<close>.\<close>

datatype meter_name =
    Losses_t | Losses_x | Losses_c
  | Losses_db_t | Losses_db_x | Losses_db_c
  | Losses_b_db_t | Losses_b_db_x | Losses_b_db_c
  | Losses_dep | Losses_n | Losses_x_parts
  | Accs | Batch_time | Data_time

text \<open>What is printed: the line \<^verbatim>\<open>* Only train ...\<close> and the progress line, with the
  values handed to \<^verbatim>\<open>format\<close>: epoch+1, max_epoch, batch_idx+1, num_batches, the
  \<^verbatim>\<open>val\<close> and \<^verbatim>\<open>avg\<close> of each meter in the order of the format string, the learning
  rate and the eta string.\<close>

datatype 'a line =
    OnlyTrain "string list" int int
  | Progress int int int int "(meter_name \<times> 'a \<times> 'a) list" 'a string

text \<open>The state of the base class \<^verbatim>\<open>engine.Engine\<close> after its constructor.\<close>

record ('w, 'e, 't, 'a, 'f) engine =
  datamanager :: data_manager
  model :: "('w, 'e, 'f) module"
  optimizer :: "('w, 'e, 'a) optimizer"
  scheduler :: "('w, 'e) lr_scheduler option"
  use_gpu :: bool
  writer :: "('w, 'e, 't, 'a) summary_writer option"

text \<open>The names the engines import (\<^verbatim>\<open>AverageMeter\<close>, \<^verbatim>\<open>open_specified_layers\<close>,
  \<^verbatim>\<open>open_all_layers\<close>, \<^verbatim>\<open>metrics.accuracy\<close>, \<^verbatim>\<open>time.time\<close>, \<^verbatim>\<open>print\<close>,
  \<^verbatim>\<open>datetime.timedelta\<close>), the methods they inherit (\<^verbatim>\<open>_parse_data_for_train\<close>,
  \<^verbatim>\<open>_compute_loss\<close>) and the tensor methods they call (\<^verbatim>\<open>cuda\<close>, \<^verbatim>\<open>backward\<close>,
  \<^verbatim>\<open>size(0)\<close>). None of them is defined in the two engine files, so they are
  parameters. An \<^verbatim>\<open>AverageMeter\<close> is a local object: \<open>update\<close> maps its state to the
  new state, or raises. \<open>accuracy\<close> is \<^verbatim>\<open>metrics.accuracy(outputs, pids)[0].item()\<close>,
  \<open>timedelta_str x k\<close> is \<^verbatim>\<open>str(datetime.timedelta(seconds=int(x * k)))\<close>, and
  \<^verbatim>\<open>.item()\<close> on a scalar tensor is the identity on \<open>'a\<close>.\<close>

record ('w, 'e, 't, 'a, 'm, 'd) env =
  AverageMeter :: 'm
  update :: "'m \<Rightarrow> 'a \<Rightarrow> int option \<Rightarrow> 'e + 'm"
  val :: "'m \<Rightarrow> 'a"
  avg :: "'m \<Rightarrow> 'a"
  open_specified_layers :: "string list \<Rightarrow> ('w, 'e, unit) action"
  open_all_layers :: "('w, 'e, unit) action"
  time :: "('w, 'e, 'a) action"
  print :: "'a line \<Rightarrow> ('w, 'e, unit) action"
  timedelta_str :: "'a \<Rightarrow> int \<Rightarrow> ('w, 'e, string) action"
  parse_data_for_train :: "'d \<Rightarrow> ('w, 'e, 't \<times> 't) action"
  compute_loss :: "'a criterion \<Rightarrow> 't list \<Rightarrow> 't \<Rightarrow> bool option \<Rightarrow> ('w, 'e, 'a) action"
  cuda :: "'t \<Rightarrow> ('w, 'e, 't) action"
  backward :: "'a \<Rightarrow> ('w, 'e, unit) action"
  size0 :: "'t \<Rightarrow> int"
  accuracy :: "'t \<Rightarrow> 't \<Rightarrow> ('w, 'e, 'a) action"


section \<open>Programs: state, exceptions and the trace of calls\<close>

text \<open>Errors a run of \<^verbatim>\<open>train\<close> can end with: an exception raised by a collaborator,
  or one raised by the interpreter inside \<^verbatim>\<open>train\<close> itself (the modulo by zero of the
  print test, an index out of range).\<close>

datatype 'e pyerr = Raised 'e | ZeroDivisionError | IndexError

text \<open>Every call to a collaborator is recorded with its arguments.\<close>

datatype ('t, 'a, 'd) call =
    ModelTrain
  | Print "'a line"
  | OpenSpecifiedLayers "string list"
  | OpenAllLayers
  | Time
  | MeterUpdate meter_name 'a "int option"
  | ParseData 'd
  | Cuda 't
  | ZeroGrad
  | Forward 't "bool option"
  | ComputeLoss "'a criterion" "'t list" 't "bool option"
  | Backward 'a
  | OptimizerStep
  | Accuracy 't 't
  | TimedeltaStr 'a int
  | Lr
  | AddScalar string 'a int
  | AddHistogram string 't int
  | SchedulerStep

text \<open>What a call returned.\<close>

datatype ('t, 'a, 'm) result =
    RNone
  | RNum 'a
  | RStr string
  | RTensor 't
  | RTensors "'t list"
  | RParts "'t list" "('t \<times> 't list) list"
  | RMeter 'm

datatype ('e, 't, 'a, 'm) outcome = Raises 'e | Returns "('t, 'a, 'm) result"

type_synonym ('e, 't, 'a, 'm, 'd) event = "('t, 'a, 'd) call \<times> ('e, 't, 'a, 'm) outcome"

text \<open>A program maps the world to the trace of the calls it made and to how it ended:
  with an error, or with a value and the new world.\<close>

type_synonym ('w, 'e, 't, 'a, 'm, 'd, 'r) prog =
  "'w \<Rightarrow> ('e, 't, 'a, 'm, 'd) event list \<times> ('e pyerr + 'r \<times> 'w)"

definition preturn :: "'r \<Rightarrow> ('w, 'e, 't, 'a, 'm, 'd, 'r) prog" where
  "preturn r = (\<lambda>w. ([], Inr (r, w)))"

definition praise :: "'e pyerr \<Rightarrow> ('w, 'e, 't, 'a, 'm, 'd, 'r) prog" where
  "praise err = (\<lambda>w. ([], Inl err))"

text \<open>No \<^verbatim>\<open>try\<close> exists in the engines, so the only way to compose two statements is
  the sequence that stops at the first error.\<close>

definition pbind :: "('w, 'e, 't, 'a, 'm, 'd, 'r) prog \<Rightarrow>
    ('r \<Rightarrow> ('w, 'e, 't, 'a, 'm, 'd, 's) prog) \<Rightarrow> ('w, 'e, 't, 'a, 'm, 'd, 's) prog" where
  "pbind m k = (\<lambda>w. case m w of
      (tr, Inl err) \<Rightarrow> (tr, Inl err)
    | (tr, Inr (r, w')) \<Rightarrow> (case k r w' of (tr', res) \<Rightarrow> (tr @ tr', res)))"

definition pcall :: "('t, 'a, 'd) call \<Rightarrow> ('r \<Rightarrow> ('t, 'a, 'm) result) \<Rightarrow>
    ('w, 'e, 'r) action \<Rightarrow> ('w, 'e, 't, 'a, 'm, 'd, 'r) prog" where
  "pcall c ret f = (\<lambda>w. case f w of
      Inl e \<Rightarrow> ([(c, Raises e)], Inl (Raised e))
    | Inr (r, w') \<Rightarrow> ([(c, Returns (ret r))], Inr (r, w')))"

text \<open>A method of a local object: it leaves the world alone.\<close>

definition local_call :: "'e + 'r \<Rightarrow> ('w, 'e, 'r) action" where
  "local_call x = (\<lambda>w. case x of Inl e \<Rightarrow> Inl e | Inr r \<Rightarrow> Inr (r, w))"

text \<open>A \<^verbatim>\<open>for\<close> loop over a list, threading the loop-carried variables.\<close>

fun pfor :: "('x \<Rightarrow> 's \<Rightarrow> ('w, 'e, 't, 'a, 'm, 'd, 's) prog) \<Rightarrow> 'x list \<Rightarrow> 's \<Rightarrow>
    ('w, 'e, 't, 'a, 'm, 'd, 's) prog" where
  "pfor body [] s = preturn s"
| "pfor body (x # xs) s = pbind (body x s) (pfor body xs)"


subsection \<open>The calls, one definition per collaborator method\<close>

definition model_train :: "('w, 'e, 'f) module \<Rightarrow> ('w, 'e, 't, 'a, 'm, 'd, unit) prog" where
  "model_train mdl = pcall ModelTrain (\<lambda>_. RNone) (train mdl)"

definition do_print :: "('w, 'e, 't, 'a, 'm, 'd) env \<Rightarrow> 'a line \<Rightarrow>
    ('w, 'e, 't, 'a, 'm, 'd, unit) prog" where
  "do_print env l = pcall (Print l) (\<lambda>_. RNone) (print env l)"

definition do_open_specified_layers :: "('w, 'e, 't, 'a, 'm, 'd) env \<Rightarrow> string list \<Rightarrow>
    ('w, 'e, 't, 'a, 'm, 'd, unit) prog" where
  "do_open_specified_layers env layers =
     pcall (OpenSpecifiedLayers layers) (\<lambda>_. RNone) (open_specified_layers env layers)"

definition do_open_all_layers :: "('w, 'e, 't, 'a, 'm, 'd) env \<Rightarrow>
    ('w, 'e, 't, 'a, 'm, 'd, unit) prog" where
  "do_open_all_layers env = pcall OpenAllLayers (\<lambda>_. RNone) (open_all_layers env)"

definition time_time :: "('w, 'e, 't, 'a, 'm, 'd) env \<Rightarrow> ('w, 'e, 't, 'a, 'm, 'd, 'a) prog" where
  "time_time env = pcall Time RNum (time env)"

text \<open>\<^verbatim>\<open>meter.update(v, n)\<close> on the local variable \<open>name\<close>; \<open>n = None\<close> when the
  call passes no count.\<close>

definition meter_update :: "('w, 'e, 't, 'a, 'm, 'd) env \<Rightarrow> meter_name \<Rightarrow> 'a \<Rightarrow> int option \<Rightarrow>
    (meter_name \<Rightarrow> 'm) \<Rightarrow> ('w, 'e, 't, 'a, 'm, 'd, meter_name \<Rightarrow> 'm) prog" where
  "meter_update env name v n ms =
     pbind (pcall (MeterUpdate name v n) RMeter (local_call (update env (ms name) v n)))
       (\<lambda>m. preturn (ms(name := m)))"

definition do_parse_data_for_train :: "('w, 'e, 't, 'a, 'm, 'd) env \<Rightarrow> 'd \<Rightarrow>
    ('w, 'e, 't, 'a, 'm, 'd, 't \<times> 't) prog" where
  "do_parse_data_for_train env data =
     pcall (ParseData data) (\<lambda>(imgs, pids). RTensors [imgs, pids]) (parse_data_for_train env data)"

definition do_cuda :: "('w, 'e, 't, 'a, 'm, 'd) env \<Rightarrow> 't \<Rightarrow> ('w, 'e, 't, 'a, 'm, 'd, 't) prog" where
  "do_cuda env x = pcall (Cuda x) RTensor (cuda env x)"

definition do_zero_grad :: "('w, 'e, 'a) optimizer \<Rightarrow> ('w, 'e, 't, 'a, 'm, 'd, unit) prog" where
  "do_zero_grad opt = pcall ZeroGrad (\<lambda>_. RNone) (zero_grad opt)"

definition do_compute_loss :: "('w, 'e, 't, 'a, 'm, 'd) env \<Rightarrow> 'a criterion \<Rightarrow> 't list \<Rightarrow> 't \<Rightarrow>
    bool option \<Rightarrow> ('w, 'e, 't, 'a, 'm, 'd, 'a) prog" where
  "do_compute_loss env crit outputs targets use_tuple =
     pcall (ComputeLoss crit outputs targets use_tuple) RNum
       (compute_loss env crit outputs targets use_tuple)"

definition do_backward :: "('w, 'e, 't, 'a, 'm, 'd) env \<Rightarrow> 'a \<Rightarrow>
    ('w, 'e, 't, 'a, 'm, 'd, unit) prog" where
  "do_backward env loss = pcall (Backward loss) (\<lambda>_. RNone) (backward env loss)"

definition optimizer_step :: "('w, 'e, 'a) optimizer \<Rightarrow> ('w, 'e, 't, 'a, 'm, 'd, unit) prog" where
  "optimizer_step opt = pcall OptimizerStep (\<lambda>_. RNone) (optimizer.step opt)"

definition do_accuracy :: "('w, 'e, 't, 'a, 'm, 'd) env \<Rightarrow> 't \<Rightarrow> 't \<Rightarrow>
    ('w, 'e, 't, 'a, 'm, 'd, 'a) prog" where
  "do_accuracy env outputs pids = pcall (Accuracy outputs pids) RNum (accuracy env outputs pids)"

definition do_timedelta_str :: "('w, 'e, 't, 'a, 'm, 'd) env \<Rightarrow> 'a \<Rightarrow> int \<Rightarrow>
    ('w, 'e, 't, 'a, 'm, 'd, string) prog" where
  "do_timedelta_str env x k = pcall (TimedeltaStr x k) RStr (timedelta_str env x k)"

definition optimizer_lr :: "('w, 'e, 'a) optimizer \<Rightarrow> ('w, 'e, 't, 'a, 'm, 'd, 'a) prog" where
  "optimizer_lr opt = pcall Lr RNum (lr opt)"

definition do_add_scalar :: "('w, 'e, 't, 'a) summary_writer \<Rightarrow> string \<Rightarrow> 'a \<Rightarrow> int \<Rightarrow>
    ('w, 'e, 't, 'a, 'm, 'd, unit) prog" where
  "do_add_scalar wr tag v n = pcall (AddScalar tag v n) (\<lambda>_. RNone) (add_scalar wr tag v n)"

definition do_add_histogram :: "('w, 'e, 't, 'a) summary_writer \<Rightarrow> string \<Rightarrow> 't \<Rightarrow> int \<Rightarrow>
    ('w, 'e, 't, 'a, 'm, 'd, unit) prog" where
  "do_add_histogram wr tag x n =
     pcall (AddHistogram tag x n) (\<lambda>_. RNone) (add_histogram wr tag x n)"

definition scheduler_step :: "('w, 'e) lr_scheduler \<Rightarrow> ('w, 'e, 't, 'a, 'm, 'd, unit) prog" where
  "scheduler_step s = pcall SchedulerStep (\<lambda>_. RNone) (lr_scheduler.step s)"

text \<open>The \<^verbatim>\<open>val\<close> and \<^verbatim>\<open>avg\<close> of a meter, as the progress line formats them.\<close>

definition reading :: "('w, 'e, 't, 'a, 'm, 'd) env \<Rightarrow> (meter_name \<Rightarrow> 'm) \<Rightarrow> meter_name \<Rightarrow>
    meter_name \<times> 'a \<times> 'a" where
  "reading env ms name = (name, val env (ms name), avg env (ms name))"



section \<open>The engine of \<^verbatim>\<open>cluster_dependency_triplet_dropbatch_dropbotfeatures.py\<close>\<close>

text \<open>The forward call \<^verbatim>\<open>self.model(imgs, drop_top = drop_top)\<close> returns
  \<^verbatim>\<open>prelogits, features, (db_prelogits, db_features), b_db_prelogits, b_db_features\<close>.\<close>

type_synonym ('w, 'e, 't) cd_forward =
  "'t \<Rightarrow> bool \<Rightarrow> ('w, 'e, 't \<times> 't \<times> ('t \<times> 't) \<times> 't \<times> 't) action"

record ('w, 'e, 't, 'a, 'f) cd_engine = "('w, 'e, 't, 'a, 'f) engine" +
  weight_t :: 'a
  weight_x :: 'a
  weight_c :: 'a
  weight_db_t :: 'a
  weight_db_x :: 'a
  weight_db_c :: 'a
  weight_b_db_t :: 'a
  weight_b_db_x :: 'a
  weight_b_db_c :: 'a
  weight_dep :: 'a
  top_drop_epoch :: int
  criterion_dep :: "'a criterion"
  criterion_c :: "'a criterion"
  criterion_t :: "'a criterion"
  criterion_x :: "'a criterion"
  criterion_db_c :: "'a criterion"
  criterion_db_t :: "'a criterion"
  criterion_db_x :: "'a criterion"
  criterion_b_db_c :: "'a criterion"
  criterion_b_db_t :: "'a criterion"
  criterion_b_db_x :: "'a criterion"

text \<open>\<^verbatim>\<open>__init__\<close> (lines 71-109). \<open>base\<close> is the object after
  \<^verbatim>\<open>super().__init__(datamanager, model, optimizer, scheduler, use_gpu)\<close>. A keyword
  argument the caller leaves out is \<open>None\<close> and takes the default of the signature:
  1 for every weight, \<^verbatim>\<open>True\<close> for \<^verbatim>\<open>label_smooth\<close>, -1 for \<^verbatim>\<open>top_drop_epoch\<close>.
  \<open>margin\<close> is the value the signature binds (0.3 when left out).\<close>

definition cd_init :: "('w, 'e, 't, 'a::one, 'f) engine \<Rightarrow> 'a \<Rightarrow>
    'a option \<Rightarrow> 'a option \<Rightarrow> 'a option \<Rightarrow> 'a option \<Rightarrow> 'a option \<Rightarrow> 'a option \<Rightarrow>
    'a option \<Rightarrow> 'a option \<Rightarrow> 'a option \<Rightarrow> 'a option \<Rightarrow> bool option \<Rightarrow> int option \<Rightarrow>
    ('w, 'e, 't, 'a, 'f) cd_engine" where
  "cd_init base margin w_t w_x w_c w_db_t w_db_x w_db_c w_b_db_t w_b_db_x w_b_db_c w_dep
      label_smooth tde =
    (let crossentropy = CrossEntropyLoss (num_train_pids (datamanager base)) (use_gpu base)
           (case label_smooth of None \<Rightarrow> True | Some b \<Rightarrow> b)
     in engine.extend base (cd_engine.fields
      (case w_t of None \<Rightarrow> 1 | Some x \<Rightarrow> x)
      (case w_x of None \<Rightarrow> 1 | Some x \<Rightarrow> x)
      (case w_c of None \<Rightarrow> 1 | Some x \<Rightarrow> x)
      (case w_db_t of None \<Rightarrow> 1 | Some x \<Rightarrow> x)
      (case w_db_x of None \<Rightarrow> 1 | Some x \<Rightarrow> x)
      (case w_db_c of None \<Rightarrow> 1 | Some x \<Rightarrow> x)
      (case w_b_db_t of None \<Rightarrow> 1 | Some x \<Rightarrow> x)
      (case w_b_db_x of None \<Rightarrow> 1 | Some x \<Rightarrow> x)
      (case w_b_db_c of None \<Rightarrow> 1 | Some x \<Rightarrow> x)
      (case w_dep of None \<Rightarrow> 1 | Some x \<Rightarrow> x)
      (case tde of None \<Rightarrow> - 1 | Some n \<Rightarrow> n)
      (TripletLossWithDependency margin)
      ClusterLoss
      (TripletLoss margin)
      crossentropy
      ClusterLoss
      (TripletLoss margin)
      crossentropy
      ClusterLoss
      (TripletLoss margin)
      crossentropy))"

text \<open>Lines 143-172 of the loop body: the gradient step on one batch and the update of
  the meters. \<open>end'\<close> is the local variable \<^verbatim>\<open>end\<close>.\<close>

definition cd_step :: "('w, 'e, 't, 'a::{plus,times,minus}, 'm, 'd) env \<Rightarrow>
    ('w, 'e, 't, 'a, ('w, 'e, 't) cd_forward) cd_engine \<Rightarrow> int \<Rightarrow> 't \<Rightarrow> 't \<Rightarrow> 'a \<Rightarrow>
    (meter_name \<Rightarrow> 'm) \<Rightarrow> ('w, 'e, 't, 'a, 'm, 'd, meter_name \<Rightarrow> 'm) prog" where
  "cd_step env self epoch imgs pids end' ms =
    pbind (do_zero_grad (optimizer self)) (\<lambda>_.
    let drop_top = (top_drop_epoch self \<noteq> - 1 \<and> epoch + 1 \<ge> top_drop_epoch self) in
    pbind (pcall (Forward imgs (Some drop_top))
             (\<lambda>(a, b, (c, d), e, f). RTensors [a, b, c, d, e, f])
             (forward (model self) imgs drop_top))
      (\<lambda>(prelogits, features, (db_prelogits, db_features), b_db_prelogits, b_db_features).
    pbind (do_compute_loss env (criterion_x self) [prelogits] pids None) (\<lambda>loss_x.
    pbind (do_compute_loss env (criterion_t self) [features] pids None) (\<lambda>loss_t.
    pbind (do_compute_loss env (criterion_c self) [features] pids None) (\<lambda>loss_c.
    pbind (do_compute_loss env (criterion_db_x self) [db_prelogits] pids None) (\<lambda>loss_db_x.
    pbind (do_compute_loss env (criterion_db_t self) [db_features] pids None) (\<lambda>loss_db_t.
    pbind (do_compute_loss env (criterion_db_c self) [db_features] pids None) (\<lambda>loss_db_c.
    pbind (do_compute_loss env (criterion_b_db_x self) [b_db_prelogits] pids None) (\<lambda>loss_b_db_x.
    pbind (do_compute_loss env (criterion_b_db_t self) [b_db_features] pids None) (\<lambda>loss_b_db_t.
    pbind (do_compute_loss env (criterion_b_db_c self) [b_db_features] pids None) (\<lambda>loss_b_db_c.
    pbind (do_compute_loss env (criterion_dep self) [db_features, b_db_features] pids (Some True))
      (\<lambda>loss_dep.
    let loss = weight_t self * loss_t + weight_x self * loss_x + weight_db_t self * loss_db_t
             + weight_db_x self * loss_db_x + weight_b_db_t self * loss_b_db_t
             + weight_b_db_x self * loss_b_db_x + weight_c self * loss_c
             + weight_db_c self * loss_db_c + weight_b_db_c self * loss_b_db_c
             + weight_dep self * loss_dep in
    pbind (do_backward env loss) (\<lambda>_.
    pbind (optimizer_step (optimizer self)) (\<lambda>_.
    pbind (time_time env) (\<lambda>now.
    pbind (meter_update env Batch_time (now - end') None ms) (\<lambda>ms.
    pbind (meter_update env Losses_t loss_t (Some (size0 env pids)) ms) (\<lambda>ms.
    pbind (meter_update env Losses_x loss_x (Some (size0 env pids)) ms) (\<lambda>ms.
    pbind (meter_update env Losses_c loss_c (Some (size0 env pids)) ms) (\<lambda>ms.
    pbind (meter_update env Losses_db_t loss_db_t (Some (size0 env pids)) ms) (\<lambda>ms.
    pbind (meter_update env Losses_db_x loss_db_x (Some (size0 env pids)) ms) (\<lambda>ms.
    pbind (meter_update env Losses_db_c loss_db_c (Some (size0 env pids)) ms) (\<lambda>ms.
    pbind (meter_update env Losses_b_db_t loss_b_db_t (Some (size0 env pids)) ms) (\<lambda>ms.
    pbind (meter_update env Losses_b_db_x loss_b_db_x (Some (size0 env pids)) ms) (\<lambda>ms.
    pbind (meter_update env Losses_b_db_c loss_b_db_c (Some (size0 env pids)) ms) (\<lambda>ms.
    pbind (meter_update env Losses_dep loss_dep (Some (size0 env pids)) ms) (\<lambda>ms.
    pbind (do_accuracy env prelogits pids) (\<lambda>acc.
    meter_update env Accs acc None ms)))))))))))))))))))))))))))"

text \<open>Lines 174-211: the progress line. \<^verbatim>\<open>(batch_idx+1) % print_freq\<close> raises
  \<^verbatim>\<open>ZeroDivisionError\<close> when \<^verbatim>\<open>print_freq\<close> is 0; the arguments of \<^verbatim>\<open>format\<close> are
  evaluated before \<^verbatim>\<open>print\<close> is called.\<close>

definition cd_print :: "('w, 'e, 't, 'a, 'm, 'd) env \<Rightarrow>
    ('w, 'e, 't, 'a, ('w, 'e, 't) cd_forward) cd_engine \<Rightarrow> int \<Rightarrow> int \<Rightarrow> int \<Rightarrow> int \<Rightarrow> nat \<Rightarrow>
    (meter_name \<Rightarrow> 'm) \<Rightarrow> ('w, 'e, 't, 'a, 'm, 'd, unit) prog" where
  "cd_print env self epoch max_epoch num_batches print_freq batch_idx ms =
    (if print_freq = 0 then praise ZeroDivisionError
     else if (int batch_idx + 1) mod print_freq = 0 then
       pbind (do_timedelta_str env (avg env (ms Batch_time))
                (num_batches - (int batch_idx + 1) + (max_epoch - (epoch + 1)) * num_batches))
         (\<lambda>eta_str.
       pbind (optimizer_lr (optimizer self)) (\<lambda>lr_now.
       do_print env (Progress (epoch + 1) max_epoch (int batch_idx + 1) num_batches
         [reading env ms Batch_time, reading env ms Data_time,
          reading env ms Losses_t, reading env ms Losses_x, reading env ms Losses_c,
          reading env ms Losses_db_t, reading env ms Losses_db_x, reading env ms Losses_db_c,
          reading env ms Losses_b_db_t, reading env ms Losses_b_db_x,
          reading env ms Losses_b_db_c, reading env ms Losses_dep, reading env ms Accs]
         lr_now eta_str)))
     else preturn ())"

text \<open>Lines 213-228: the scalars written for one batch.\<close>

definition cd_log :: "('w, 'e, 't, 'a, 'm, 'd) env \<Rightarrow>
    ('w, 'e, 't, 'a, ('w, 'e, 't) cd_forward) cd_engine \<Rightarrow> int \<Rightarrow> int \<Rightarrow> nat \<Rightarrow>
    (meter_name \<Rightarrow> 'm) \<Rightarrow> ('w, 'e, 't, 'a, 'm, 'd, unit) prog" where
  "cd_log env self epoch num_batches batch_idx ms =
    (case writer self of
       None \<Rightarrow> preturn ()
     | Some wr \<Rightarrow>
        let n_iter = epoch * num_batches + int batch_idx in
        pbind (do_add_scalar wr ''Train/Time'' (avg env (ms Batch_time)) n_iter) (\<lambda>_.
        pbind (do_add_scalar wr ''Train/Data'' (avg env (ms Data_time)) n_iter) (\<lambda>_.
        pbind (do_add_scalar wr ''Train/Loss_t'' (avg env (ms Losses_t)) n_iter) (\<lambda>_.
        pbind (do_add_scalar wr ''Train/Loss_x'' (avg env (ms Losses_x)) n_iter) (\<lambda>_.
        pbind (do_add_scalar wr ''Train/Loss_c'' (avg env (ms Losses_c)) n_iter) (\<lambda>_.
        pbind (do_add_scalar wr ''Train/Loss_db_t'' (avg env (ms Losses_db_t)) n_iter) (\<lambda>_.
        pbind (do_add_scalar wr ''Train/Loss_db_x'' (avg env (ms Losses_db_x)) n_iter) (\<lambda>_.
        pbind (do_add_scalar wr ''Train/Loss_db_c'' (avg env (ms Losses_db_c)) n_iter) (\<lambda>_.
        pbind (do_add_scalar wr ''Train/Loss_b_db_t'' (avg env (ms Losses_b_db_t)) n_iter) (\<lambda>_.
        pbind (do_add_scalar wr ''Train/Loss_b_db_x'' (avg env (ms Losses_b_db_x)) n_iter) (\<lambda>_.
        pbind (do_add_scalar wr ''Train/Loss_b_db_c'' (avg env (ms Losses_b_db_c)) n_iter) (\<lambda>_.
        pbind (do_add_scalar wr ''Train/Loss_dep'' (avg env (ms Losses_dep)) n_iter) (\<lambda>_.
        pbind (do_add_scalar wr ''Train/Acc glob'' (avg env (ms Accs)) n_iter) (\<lambda>_.
        pbind (optimizer_lr (optimizer self)) (\<lambda>lr_now.
        do_add_scalar wr ''Train/Lr'' lr_now n_iter)))))))))))))))"

text \<open>Lines 135-230: the body of the loop for the item \<open>data\<close> at index \<open>batch_idx\<close>
  of \<^verbatim>\<open>enumerate(trainloader)\<close>. The loop carries the meters and \<^verbatim>\<open>end\<close>.\<close>

fun cd_batch :: "('w, 'e, 't, 'a::{plus,times,minus}, 'm, 'd) env \<Rightarrow>
    ('w, 'e, 't, 'a, ('w, 'e, 't) cd_forward) cd_engine \<Rightarrow> int \<Rightarrow> int \<Rightarrow> int \<Rightarrow> int \<Rightarrow>
    nat \<times> 'd \<Rightarrow> (meter_name \<Rightarrow> 'm) \<times> 'a \<Rightarrow>
    ('w, 'e, 't, 'a, 'm, 'd, (meter_name \<Rightarrow> 'm) \<times> 'a) prog" where
  "cd_batch env self epoch max_epoch num_batches print_freq (batch_idx, data) (ms, end') =
    pbind (time_time env) (\<lambda>now.
    pbind (meter_update env Data_time (now - end') None ms) (\<lambda>ms.
    pbind (do_parse_data_for_train env data) (\<lambda>(imgs, pids).
    pbind (if use_gpu self then
             pbind (do_cuda env imgs) (\<lambda>imgs.
             pbind (do_cuda env pids) (\<lambda>pids. preturn (imgs, pids)))
           else preturn (imgs, pids)) (\<lambda>(imgs, pids).
    pbind (cd_step env self epoch imgs pids end' ms) (\<lambda>ms.
    pbind (cd_print env self epoch max_epoch num_batches print_freq batch_idx ms) (\<lambda>_.
    pbind (cd_log env self epoch num_batches batch_idx ms) (\<lambda>_.
    pbind (time_time env) (\<lambda>end'. preturn (ms, end')))))))))"

declare cd_batch.simps [simp del]

text \<open>\<^verbatim>\<open>train\<close> (lines 111-233). The thirteen meters are new objects; \<open>open_layers\<close> is
  \<open>None\<close> or the layers to open.\<close>

definition cd_train :: "('w, 'e, 't, 'a::{plus,times,minus}, 'm, 'd) env \<Rightarrow>
    ('w, 'e, 't, 'a, ('w, 'e, 't) cd_forward) cd_engine \<Rightarrow> int \<Rightarrow> int \<Rightarrow> 'd trainloader \<Rightarrow>
    int \<Rightarrow> string list option \<Rightarrow> int \<Rightarrow> ('w, 'e, 't, 'a, 'm, 'd, unit) prog" where
  "cd_train env self epoch max_epoch loader fixbase_epoch open_layers print_freq =
    (let ms = (\<lambda>_. AverageMeter env) in
     pbind (model_train (model self)) (\<lambda>_.
     pbind (if epoch + 1 \<le> fixbase_epoch \<and> open_layers \<noteq> None then
              pbind (do_print env (OnlyTrain (the open_layers) (epoch + 1) fixbase_epoch)) (\<lambda>_.
              do_open_specified_layers env (the open_layers))
            else do_open_all_layers env) (\<lambda>_.
     let num_batches = len loader in
     pbind (time_time env) (\<lambda>end'.
     pbind (pfor (cd_batch env self epoch max_epoch num_batches print_freq)
              (enumerate 0 (batches loader)) (ms, end')) (\<lambda>_.
     (case scheduler self of
        None \<Rightarrow> preturn ()
      | Some s \<Rightarrow> scheduler_step s))))))"



section \<open>The engine of \<^verbatim>\<open>triplet_npairs_softmax_fgnet.py\<close>\<close>

text \<open>The forward call \<^verbatim>\<open>self.model(imgs)\<close> returns
  \<^verbatim>\<open>outputs, features, parts, part_weights, outputs_parts\<close>; \<^verbatim>\<open>part_weights\<close> is a
  sequence of pairs whose second component \<^verbatim>\<open>weights\<close> is a tensor read along its first
  axis: it is the list of its rows \<^verbatim>\<open>weights[j, ...]\<close>, and \<^verbatim>\<open>weights.size(0)\<close> is
  the length of that list.\<close>

type_synonym ('w, 'e, 't) fg_forward =
  "'t \<Rightarrow> ('w, 'e, 't \<times> 't \<times> 't \<times> ('t \<times> 't list) list \<times> 't) action"

record ('w, 'e, 't, 'a, 'f) fg_engine = "('w, 'e, 't, 'a, 'f) engine" +
  weight_t :: 'a
  weight_x :: 'a
  weight_n :: 'a
  weight_x_parts :: 'a
  criterion_t :: "'a criterion"
  criterion_x :: "'a criterion"
  criterion_n :: "'a criterion"
  criterion_x_parts :: "'a criterion"

text \<open>\<^verbatim>\<open>__init__\<close> (lines 71-97), with the defaults 1 of the weights and \<^verbatim>\<open>True\<close> of
  \<^verbatim>\<open>label_smooth\<close>; the four margins are the values the signature binds.\<close>

definition fg_init :: "('w, 'e, 't, 'a::one, 'f) engine \<Rightarrow> 'a \<Rightarrow> 'a \<Rightarrow> 'a \<Rightarrow> 'a \<Rightarrow>
    'a option \<Rightarrow> 'a option \<Rightarrow> 'a option \<Rightarrow> 'a option \<Rightarrow> bool option \<Rightarrow>
    ('w, 'e, 't, 'a, 'f) fg_engine" where
  "fg_init base margin margin_sasc margin_sadc margin_dasc w_t w_x w_n w_x_parts label_smooth =
    (let crossentropy = CrossEntropyLoss (num_train_pids (datamanager base)) (use_gpu base)
           (case label_smooth of None \<Rightarrow> True | Some b \<Rightarrow> b)
     in engine.extend base (fg_engine.fields
      (case w_t of None \<Rightarrow> 1 | Some x \<Rightarrow> x)
      (case w_x of None \<Rightarrow> 1 | Some x \<Rightarrow> x)
      (case w_n of None \<Rightarrow> 1 | Some x \<Rightarrow> x)
      (case w_x_parts of None \<Rightarrow> 1 | Some x \<Rightarrow> x)
      (TripletLoss margin)
      crossentropy
      (NPairsLoss (use_gpu base) margin_sasc margin_sadc margin_dasc)
      crossentropy))"

text \<open>Lines 125-143 of the loop body: the gradient step and the update of the meters.
  \<^verbatim>\<open>part_weights\<close> is handed on to the histogram logging.\<close>

definition fg_step :: "('w, 'e, 't, 'a::{plus,times,minus}, 'm, 'd) env \<Rightarrow>
    ('w, 'e, 't, 'a, ('w, 'e, 't) fg_forward) fg_engine \<Rightarrow> 't \<Rightarrow> 't \<Rightarrow> 'a \<Rightarrow>
    (meter_name \<Rightarrow> 'm) \<Rightarrow>
    ('w, 'e, 't, 'a, 'm, 'd, (meter_name \<Rightarrow> 'm) \<times> ('t \<times> 't list) list) prog" where
  "fg_step env self imgs pids end' ms =
    pbind (do_zero_grad (optimizer self)) (\<lambda>_.
    pbind (pcall (Forward imgs None)
             (\<lambda>(a, b, c, pw, d). RParts [a, b, c, d] pw)
             (forward (model self) imgs))
      (\<lambda>(outputs, features, parts, part_weights, outputs_parts).
    pbind (do_compute_loss env (criterion_t self) [features] pids None) (\<lambda>loss_t.
    pbind (do_compute_loss env (criterion_x self) [outputs] pids None) (\<lambda>loss_x.
    pbind (do_compute_loss env (criterion_n self) [parts] pids None) (\<lambda>loss_n.
    pbind (do_compute_loss env (criterion_x_parts self) [outputs_parts] pids None) (\<lambda>loss_x_parts.
    let loss = weight_t self * loss_t + weight_x self * loss_x + weight_n self * loss_n
             + weight_x_parts self * loss_x_parts in
    pbind (do_backward env loss) (\<lambda>_.
    pbind (optimizer_step (optimizer self)) (\<lambda>_.
    pbind (time_time env) (\<lambda>now.
    pbind (meter_update env Batch_time (now - end') None ms) (\<lambda>ms.
    pbind (meter_update env Losses_t loss_t (Some (size0 env pids)) ms) (\<lambda>ms.
    pbind (meter_update env Losses_x loss_x (Some (size0 env pids)) ms) (\<lambda>ms.
    pbind (meter_update env Losses_n loss_n (Some (size0 env pids)) ms) (\<lambda>ms.
    pbind (meter_update env Losses_x_parts loss_x_parts (Some (size0 env pids)) ms) (\<lambda>ms.
    pbind (do_accuracy env outputs pids) (\<lambda>acc.
    pbind (meter_update env Accs acc None ms) (\<lambda>ms.
    preturn (ms, part_weights)))))))))))))))))"

text \<open>Lines 145-170: the progress line.\<close>

definition fg_print :: "('w, 'e, 't, 'a, 'm, 'd) env \<Rightarrow>
    ('w, 'e, 't, 'a, ('w, 'e, 't) fg_forward) fg_engine \<Rightarrow> int \<Rightarrow> int \<Rightarrow> int \<Rightarrow> int \<Rightarrow> nat \<Rightarrow>
    (meter_name \<Rightarrow> 'm) \<Rightarrow> ('w, 'e, 't, 'a, 'm, 'd, unit) prog" where
  "fg_print env self epoch max_epoch num_batches print_freq batch_idx ms =
    (if print_freq = 0 then praise ZeroDivisionError
     else if (int batch_idx + 1) mod print_freq = 0 then
       pbind (do_timedelta_str env (avg env (ms Batch_time))
                (num_batches - (int batch_idx + 1) + (max_epoch - (epoch + 1)) * num_batches))
         (\<lambda>eta_str.
       pbind (optimizer_lr (optimizer self)) (\<lambda>lr_now.
       do_print env (Progress (epoch + 1) max_epoch (int batch_idx + 1) num_batches
         [reading env ms Batch_time, reading env ms Data_time,
          reading env ms Losses_t, reading env ms Losses_x, reading env ms Losses_n,
          reading env ms Losses_x_parts, reading env ms Accs]
         lr_now eta_str)))
     else preturn ())"

text \<open>Python's \<^verbatim>\<open>str\<close> of an integer, \<^verbatim>\<open>range(k)\<close>, and the read \<^verbatim>\<open>xs[j, ...]\<close> along the
  first axis: a negative index counts from the end, an index out of range raises
  \<^verbatim>\<open>IndexError\<close>.\<close>

fun str_nat :: "nat \<Rightarrow> string" where
  "str_nat n = (if n < 10 then [''0123456789'' ! n]
                else str_nat (n div 10) @ [''0123456789'' ! (n mod 10)])"

declare str_nat.simps [simp del]

definition str_int :: "int \<Rightarrow> string" where
  "str_int i = (if i < 0 then CHR ''-'' # str_nat (nat (- i)) else str_nat (nat i))"

definition py_range :: "int \<Rightarrow> int list" where
  "py_range k = map int [0..<nat k]"

definition getitem :: "'x list \<Rightarrow> int \<Rightarrow> 'e pyerr + 'x" where
  "getitem xs j =
     (let n = int (length xs); k = (if j < 0 then n + j else j)
      in if 0 \<le> k \<and> k < n then Inr (xs ! nat k) else Inl IndexError)"

definition plift :: "'e pyerr + 'r \<Rightarrow> ('w, 'e, 't, 'a, 'm, 'd, 'r) prog" where
  "plift x = (case x of Inl err \<Rightarrow> praise err | Inr r \<Rightarrow> preturn r)"

text \<open>Lines 185-186: the histograms of the part at index \<open>i\<close> of
  \<^verbatim>\<open>enumerate(part_weights)\<close>.\<close>

fun fg_log_part :: "('w, 'e, 't, 'a) summary_writer \<Rightarrow> int \<Rightarrow> nat \<times> 't \<times> 't list \<Rightarrow> unit \<Rightarrow>
    ('w, 'e, 't, 'a, 'm, 'd, unit) prog" where
  "fg_log_part wr n_iter (i, (u, weights)) _ =
    pfor (\<lambda>j _.
        pbind (plift (getitem weights j)) (\<lambda>row.
        do_add_histogram wr (''Train/Part'' @ str_int (int i) @ ''/Batch'' @ str_int j) row n_iter))
      (py_range (min (int (length weights)) 3)) ()"

declare fg_log_part.simps [simp del]

text \<open>Lines 172-186: the scalars and the histograms written for one batch.\<close>

definition fg_log :: "('w, 'e, 't, 'a, 'm, 'd) env \<Rightarrow>
    ('w, 'e, 't, 'a, ('w, 'e, 't) fg_forward) fg_engine \<Rightarrow> int \<Rightarrow> int \<Rightarrow> nat \<Rightarrow>
    (meter_name \<Rightarrow> 'm) \<Rightarrow> ('t \<times> 't list) list \<Rightarrow> ('w, 'e, 't, 'a, 'm, 'd, unit) prog" where
  "fg_log env self epoch num_batches batch_idx ms part_weights =
    (case writer self of
       None \<Rightarrow> preturn ()
     | Some wr \<Rightarrow>
        let n_iter = epoch * num_batches + int batch_idx in
        pbind (do_add_scalar wr ''Train/Time'' (avg env (ms Batch_time)) n_iter) (\<lambda>_.
        pbind (do_add_scalar wr ''Train/Data'' (avg env (ms Data_time)) n_iter) (\<lambda>_.
        pbind (do_add_scalar wr ''Train/Loss_t'' (avg env (ms Losses_t)) n_iter) (\<lambda>_.
        pbind (do_add_scalar wr ''Train/Loss_x'' (avg env (ms Losses_x)) n_iter) (\<lambda>_.
        pbind (do_add_scalar wr ''Train/Loss_n'' (avg env (ms Losses_n)) n_iter) (\<lambda>_.
        pbind (do_add_scalar wr ''Train/Loss_x_parts'' (avg env (ms Losses_x_parts)) n_iter) (\<lambda>_.
        pbind (do_add_scalar wr ''Train/Acc glob'' (avg env (ms Accs)) n_iter) (\<lambda>_.
        pbind (optimizer_lr (optimizer self)) (\<lambda>lr_now.
        pbind (do_add_scalar wr ''Train/Lr'' lr_now n_iter) (\<lambda>_.
        pfor (fg_log_part wr n_iter) (enumerate 0 part_weights) ()))))))))))"

text \<open>Lines 117-188: the body of the loop.\<close>

fun fg_batch :: "('w, 'e, 't, 'a::{plus,times,minus}, 'm, 'd) env \<Rightarrow>
    ('w, 'e, 't, 'a, ('w, 'e, 't) fg_forward) fg_engine \<Rightarrow> int \<Rightarrow> int \<Rightarrow> int \<Rightarrow> int \<Rightarrow>
    nat \<times> 'd \<Rightarrow> (meter_name \<Rightarrow> 'm) \<times> 'a \<Rightarrow>
    ('w, 'e, 't, 'a, 'm, 'd, (meter_name \<Rightarrow> 'm) \<times> 'a) prog" where
  "fg_batch env self epoch max_epoch num_batches print_freq (batch_idx, data) (ms, end') =
    pbind (time_time env) (\<lambda>now.
    pbind (meter_update env Data_time (now - end') None ms) (\<lambda>ms.
    pbind (do_parse_data_for_train env data) (\<lambda>(imgs, pids).
    pbind (if use_gpu self then
             pbind (do_cuda env imgs) (\<lambda>imgs.
             pbind (do_cuda env pids) (\<lambda>pids. preturn (imgs, pids)))
           else preturn (imgs, pids)) (\<lambda>(imgs, pids).
    pbind (fg_step env self imgs pids end' ms) (\<lambda>(ms, part_weights).
    pbind (fg_print env self epoch max_epoch num_batches print_freq batch_idx ms) (\<lambda>_.
    pbind (fg_log env self epoch num_batches batch_idx ms part_weights) (\<lambda>_.
    pbind (time_time env) (\<lambda>end'. preturn (ms, end')))))))))"

declare fg_batch.simps [simp del]

text \<open>\<^verbatim>\<open>train\<close> (lines 99-191), with its seven new meters.\<close>

definition fg_train :: "('w, 'e, 't, 'a::{plus,times,minus}, 'm, 'd) env \<Rightarrow>
    ('w, 'e, 't, 'a, ('w, 'e, 't) fg_forward) fg_engine \<Rightarrow> int \<Rightarrow> int \<Rightarrow> 'd trainloader \<Rightarrow>
    int \<Rightarrow> string list option \<Rightarrow> int \<Rightarrow> ('w, 'e, 't, 'a, 'm, 'd, unit) prog" where
  "fg_train env self epoch max_epoch loader fixbase_epoch open_layers print_freq =
    (let ms = (\<lambda>_. AverageMeter env) in
     pbind (model_train (model self)) (\<lambda>_.
     pbind (if epoch + 1 \<le> fixbase_epoch \<and> open_layers \<noteq> None then
              pbind (do_print env (OnlyTrain (the open_layers) (epoch + 1) fixbase_epoch)) (\<lambda>_.
              do_open_specified_layers env (the open_layers))
            else do_open_all_layers env) (\<lambda>_.
     let num_batches = len loader in
     pbind (time_time env) (\<lambda>end'.
     pbind (pfor (fg_batch env self epoch max_epoch num_batches print_freq)
              (enumerate 0 (batches loader)) (ms, end')) (\<lambda>_.
     (case scheduler self of
        None \<Rightarrow> preturn ()
      | Some s \<Rightarrow> scheduler_step s))))))"



section \<open>Properties of traces\<close>

text \<open>\<open>always P tr\<close>: every event of the trace satisfies \<open>P\<close>, which also sees the
  events before it. \<open>suffix_local P\<close>: \<open>P\<close> only looks at the most recent events.\<close>

definition always :: "('h list \<Rightarrow> 'h \<Rightarrow> bool) \<Rightarrow> 'h list \<Rightarrow> bool" where
  "always P tr = (\<forall>i < length tr. P (take i tr) (tr ! i))"


definition tr_always :: "(('e, 't, 'a, 'm, 'd) event list \<Rightarrow> ('e, 't, 'a, 'm, 'd) event \<Rightarrow> bool) \<Rightarrow>
    ('w, 'e, 't, 'a, 'm, 'd, 'r) prog \<Rightarrow> bool" where
  "tr_always P m = (\<forall>w. always P (fst (m w)))"

text \<open>The calls of a trace seen through \<open>k\<close>, in order. \<open>proj_spec k m xs\<close>: every run of
  \<open>m\<close> shows a prefix of \<open>xs\<close>, and all of \<open>xs\<close> when it returns.\<close>

fun the_list :: "'k option \<Rightarrow> 'k list" where
  "the_list None = []"
| "the_list (Some x) = [x]"

definition proj :: "(('t, 'a, 'd) call \<Rightarrow> 'k option) \<Rightarrow> ('e, 't, 'a, 'm, 'd) event list \<Rightarrow>
    'k list" where
  "proj k tr = List.map_filter (\<lambda>ev. k (fst ev)) tr"


text \<open>The exceptions raised by the calls of a trace. A program is disciplined when it
  ends with \<open>Raised e\<close> exactly when its last call raised \<open>e\<close>, no earlier call raised,
  it never ends with \<^verbatim>\<open>IndexError\<close>, and it ends with \<^verbatim>\<open>ZeroDivisionError\<close> only
  under \<open>zd\<close>.\<close>

definition raised_in :: "('e, 't, 'a, 'm, 'd) event list \<Rightarrow> 'e list" where
  "raised_in tr = List.map_filter (\<lambda>ev. case snd ev of Raises e \<Rightarrow> Some e | Returns r \<Rightarrow> None) tr"

definition disciplined :: "bool \<Rightarrow> ('w, 'e, 't, 'a, 'm, 'd, 'r) prog \<Rightarrow> bool" where
  "disciplined zd m = (\<forall>w. case snd (m w) of
       Inr p \<Rightarrow> raised_in (fst (m w)) = []
     | Inl (Raised e) \<Rightarrow>
         fst (m w) \<noteq> [] \<and> snd (last (fst (m w))) = Raises e \<and> raised_in (fst (m w)) = [e]
     | Inl ZeroDivisionError \<Rightarrow> zd \<and> raised_in (fst (m w)) = []
     | Inl IndexError \<Rightarrow> False)"




subsection \<open>The backpropagated scalar\<close>






subsection \<open>The drop-top flag and the fix-base phase\<close>








subsection \<open>The meters\<close>

text \<open>The meters obtained from new \<^verbatim>\<open>AverageMeter\<close> objects by the updates of a
  history, and the meter whose average a scalar tag reports.\<close>

definition meter_step :: "('w, 'e, 't, 'a, 'm, 'd) env \<Rightarrow> (meter_name \<Rightarrow> 'm) \<Rightarrow>
    ('e, 't, 'a, 'm, 'd) event \<Rightarrow> meter_name \<Rightarrow> 'm" where
  "meter_step env ms ev = (case ev of
       (MeterUpdate name v n, Returns r) \<Rightarrow>
          (case update env (ms name) v n of Inr m \<Rightarrow> ms(name := m) | Inl e \<Rightarrow> ms)
     | _ \<Rightarrow> ms)"

definition meters_after :: "('w, 'e, 't, 'a, 'm, 'd) env \<Rightarrow> ('e, 't, 'a, 'm, 'd) event list \<Rightarrow>
    meter_name \<Rightarrow> 'm" where
  "meters_after env h = foldl (meter_step env) (\<lambda>_. AverageMeter env) h"

definition scalar_meter :: "string \<Rightarrow> meter_name option" where
  "scalar_meter = map_of
     [(''Train/Time'', Batch_time), (''Train/Data'', Data_time),
      (''Train/Loss_t'', Losses_t), (''Train/Loss_x'', Losses_x), (''Train/Loss_c'', Losses_c),
      (''Train/Loss_db_t'', Losses_db_t), (''Train/Loss_db_x'', Losses_db_x),
      (''Train/Loss_db_c'', Losses_db_c), (''Train/Loss_b_db_t'', Losses_b_db_t),
      (''Train/Loss_b_db_x'', Losses_b_db_x), (''Train/Loss_b_db_c'', Losses_b_db_c),
      (''Train/Loss_dep'', Losses_dep), (''Train/Loss_n'', Losses_n),
      (''Train/Loss_x_parts'', Losses_x_parts), (''Train/Acc glob'', Accs)]"

text \<open>What a progress line or a scalar reports is read from the meters of this call.\<close>

definition reported_fresh :: "('w, 'e, 't, 'a, 'm, 'd) env \<Rightarrow>
    ('e, 't, 'a, 'm, 'd) event list \<Rightarrow> ('e, 't, 'a, 'm, 'd) event \<Rightarrow> bool" where
  "reported_fresh env h ev = (case fst ev of
       Print (Progress e m b n rs lr_now eta) \<Rightarrow>
         rs = map (reading env (meters_after env h)) (map fst rs)
     | AddScalar tag v n \<Rightarrow>
         (case scalar_meter tag of Some name \<Rightarrow> v = avg env (meters_after env h name)
          | None \<Rightarrow> True)
     | _ \<Rightarrow> True)"

definition mtrack :: "('w, 'e, 't, 'a, 'm, 'd) env \<Rightarrow> (meter_name \<Rightarrow> 'm) \<Rightarrow>
    ('w, 'e, 't, 'a, 'm, 'd, 'r) prog \<Rightarrow> ('r \<Rightarrow> meter_name \<Rightarrow> 'm) \<Rightarrow> bool" where
  "mtrack env ms m post = (\<forall>h0 w. meters_after env h0 = ms \<longrightarrow>
      always (\<lambda>h. reported_fresh env (h0 @ h)) (fst (m w)) \<and>
      (case snd (m w) of Inl err \<Rightarrow> True
       | Inr (r, w') \<Rightarrow> meters_after env (h0 @ fst (m w)) = post r))"

text \<open>The weaker property of a program whose result is of no interest: run after a history
  that leaves the meters \<^verbatim>\<open>ms\<close>, it reports current values only.\<close>

definition mfresh :: "('w, 'e, 't, 'a, 'm, 'd) env \<Rightarrow> (meter_name \<Rightarrow> 'm) \<Rightarrow>
    ('w, 'e, 't, 'a, 'm, 'd, 'r) prog \<Rightarrow> bool" where
  "mfresh env ms m = (\<forall>h0 w. meters_after env h0 = ms \<longrightarrow>
      always (\<lambda>h. reported_fresh env (h0 @ h)) (fst (m w)))"


subsection \<open>The gradient steps\<close>




subsection \<open>The control flow of an epoch\<close>









subsection \<open>What is reported for a batch\<close>








section \<open>A concrete world\<close>

text \<open>Collaborators that count the calls made: the world is the number of calls so far,
  the clock and the losses read it. A meter holds \<^verbatim>\<open>val\<close>, \<^verbatim>\<open>sum\<close> and \<^verbatim>\<open>count\<close>
  over the integers.\<close>

definition ok :: "'r \<Rightarrow> (nat, string, 'r) action" where
  "ok r = (\<lambda>w. Inr (r, Suc w))"

definition envW :: "(nat, string, nat, int, int \<times> int \<times> int, nat) env" where
  "envW = \<lparr> AverageMeter = (0, 0, 0),
     update = (\<lambda>(v0, s, c) v n. let k = (case n of None \<Rightarrow> 1 | Some k \<Rightarrow> k) in
        if c + k = 0 then Inl ''ZeroDivisionError'' else Inr (v, s + v * k, c + k)),
     val = (\<lambda>(v, s, c). v),
     avg = (\<lambda>(v, s, c). s div c),
     open_specified_layers = (\<lambda>layers. ok ()),
     open_all_layers = ok (),
     time = (\<lambda>w. Inr (int w, Suc w)),
     print = (\<lambda>l. ok ()),
     timedelta_str = (\<lambda>x k. ok ''0:00:00''),
     parse_data_for_train = (\<lambda>d. ok (d, d + 100)),
     compute_loss = (\<lambda>crit outputs targets use_tuple w. Inr (int w, Suc w)),
     cuda = (\<lambda>x. ok x),
     backward = (\<lambda>l. ok ()),
     size0 = (\<lambda>t. 4),
     accuracy = (\<lambda>outputs pids. ok 90) \<rparr>"

text \<open>The same collaborators, with a \<^verbatim>\<open>backward\<close> that raises.\<close>

definition envF :: "(nat, string, nat, int, int \<times> int \<times> int, nat) env" where
  "envF = envW \<lparr> backward := (\<lambda>l w. Inl ''RuntimeError'') \<rparr>"

definition baseW :: "'f \<Rightarrow> (nat, string, nat, int, 'f) engine" where
  "baseW fw = \<lparr> datamanager = \<lparr> num_train_pids = 751 \<rparr>,
     model = \<lparr> train = ok (), forward = fw \<rparr>,
     optimizer = \<lparr> zero_grad = ok (), step = ok (), lr = ok 3 \<rparr>,
     scheduler = Some \<lparr> step = ok () \<rparr>,
     use_gpu = True,
     writer = Some \<lparr> add_scalar = (\<lambda>tag v n. ok ()), add_histogram = (\<lambda>tag x n. ok ()) \<rparr> \<rparr>"

definition cdW :: "(nat, string, nat, int, (nat, string, nat) cd_forward) cd_engine" where
  "cdW = cd_init
      (baseW (\<lambda>imgs drop_top. ok (imgs + 1, imgs + 2, (imgs + 3, imgs + 4), imgs + 5, imgs + 6)))
      0 (Some 2) (Some 3) None None None None None None None None None (Some 5)"

definition cdW_default :: "(nat, string, nat, int, (nat, string, nat) cd_forward) cd_engine" where
  "cdW_default = cd_init
      (baseW (\<lambda>imgs drop_top. ok (imgs + 1, imgs + 2, (imgs + 3, imgs + 4), imgs + 5, imgs + 6)))
      0 None None None None None None None None None None None None"

definition fgW :: "(nat, string, nat, int, (nat, string, nat) fg_forward) fg_engine" where
  "fgW = fg_init
      (baseW (\<lambda>imgs. ok (imgs + 1, imgs + 2, imgs + 3, [(imgs + 4, [imgs + 5, imgs + 6])], imgs + 7)))
      0 0 0 0 (Some 2) (Some 3) None None None"


section \<open>Running programs\<close>

lemmas call_defs = model_train_def do_print_def do_open_specified_layers_def do_open_all_layers_def
  time_time_def meter_update_def do_parse_data_for_train_def do_cuda_def do_zero_grad_def
  do_compute_loss_def do_backward_def optimizer_step_def do_accuracy_def do_timedelta_str_def
  optimizer_lr_def do_add_scalar_def do_add_histogram_def scheduler_step_def

lemmas call_defs_but_meter = model_train_def do_print_def do_open_specified_layers_def
  do_open_all_layers_def time_time_def do_parse_data_for_train_def do_cuda_def do_zero_grad_def
  do_compute_loss_def do_backward_def optimizer_step_def do_accuracy_def do_timedelta_str_def
  optimizer_lr_def do_add_scalar_def do_add_histogram_def scheduler_step_def

lemma preturn_run: "preturn r w = ([], Inr (r, w))"
  by (simp add: preturn_def)

lemma praise_run: "praise err w = ([], Inl err)"
  by (simp add: praise_def)

lemma pcall_run:
  "pcall c ret f w = (case f w of
       Inl e \<Rightarrow> ([(c, Raises e)], Inl (Raised e))
     | Inr (r, w') \<Rightarrow> ([(c, Returns (ret r))], Inr (r, w')))"
  by (simp add: pcall_def)

lemma pbind_pcall_run:
  "pbind (pcall c ret f) k w = (case f w of
       Inl e \<Rightarrow> ([(c, Raises e)], Inl (Raised e))
     | Inr (r, w') \<Rightarrow> (case k r w' of (tr', res) \<Rightarrow> ((c, Returns (ret r)) # tr', res)))"
  by (simp add: pbind_def pcall_def split: sum.splits prod.splits)


lemma pbind_preturn: "pbind (preturn r) k = k r"
  by (auto simp: pbind_def preturn_def fun_eq_iff split: prod.splits sum.splits)

lemma fst_pbind:
  "fst (pbind m k w) = (case snd (m w) of Inl err \<Rightarrow> fst (m w)
      | Inr (r, w') \<Rightarrow> fst (m w) @ fst (k r w'))"
  by (simp add: pbind_def split: prod.splits sum.splits)

lemma snd_pbind:
  "snd (pbind m k w) = (case snd (m w) of Inl err \<Rightarrow> Inl err | Inr (r, w') \<Rightarrow> snd (k r w'))"
  by (simp add: pbind_def split: prod.splits sum.splits)


section \<open>Properties of every event\<close>

lemma always_Nil [simp]: "always P []"
  by (simp add: always_def)

lemma always_Cons: "always P (x # xs) = (P [] x \<and> always (\<lambda>h. P (x # h)) xs)"
proof -
  have "(\<forall>i < Suc (length xs). P (take i (x # xs)) ((x # xs) ! i)) =
        (P [] x \<and> (\<forall>i < length xs. P (x # take i xs) (xs ! i)))"
    by (auto simp: less_Suc_eq_0_disj)
  then show ?thesis by (simp add: always_def)
qed

lemma always_append: "always P (xs @ ys) = (always P xs \<and> always (\<lambda>h. P (xs @ h)) ys)"
  by (induction xs arbitrary: P) (simp_all add: always_Cons)


lemma always_all: "(\<And>h x. x \<in> set xs \<Longrightarrow> P h x) \<Longrightarrow> always P xs"
  by (simp add: always_def)












lemma tr_alwaysD: "tr_always P m \<Longrightarrow> always P (fst (m w))"
  by (simp add: tr_always_def)


section \<open>Projections\<close>

lemma proj_simps [simp]:
  "proj k [] = []"
  "proj k (ev # tr) = the_list (k (fst ev)) @ proj k tr"
  "proj k (tr @ tr') = proj k tr @ proj k tr'"
  by (cases "k (fst ev)"; simp add: proj_def List.map_filter_def)+














section \<open>Errors\<close>

lemma raised_in_simps [simp]:
  "raised_in [] = []"
  "raised_in ((c, Raises e) # tr) = e # raised_in tr"
  "raised_in ((c, Returns r) # tr) = raised_in tr"
  "raised_in (tr @ tr') = raised_in tr @ raised_in tr'"
  by (simp_all add: raised_in_def List.map_filter_def)

lemma disciplined_call: "disciplined zd (pcall c ret f)"
  by (simp add: disciplined_def pcall_def split: sum.splits prod.splits)

lemma disciplined_return: "disciplined zd (preturn r)"
  by (simp add: disciplined_def preturn_def)

lemma disciplined_raise_zd: "zd \<Longrightarrow> disciplined zd (praise ZeroDivisionError)"
  by (simp add: disciplined_def praise_def)

lemma disciplined_bind:
  assumes "disciplined zd m" "\<And>r. disciplined zd (k r)"
  shows "disciplined zd (pbind m k)"
  unfolding disciplined_def
proof
  fix w
  show "case snd (pbind m k w) of
       Inr p \<Rightarrow> raised_in (fst (pbind m k w)) = []
     | Inl (Raised e) \<Rightarrow>
         fst (pbind m k w) \<noteq> [] \<and> snd (last (fst (pbind m k w))) = Raises e \<and>
         raised_in (fst (pbind m k w)) = [e]
     | Inl ZeroDivisionError \<Rightarrow> zd \<and> raised_in (fst (pbind m k w)) = []
     | Inl IndexError \<Rightarrow> False"
  proof (cases "snd (m w)")
    case (Inl err)
    with assms(1)[unfolded disciplined_def, rule_format, of w] show ?thesis
      by (auto simp: fst_pbind snd_pbind split: pyerr.splits)
  next
    case (Inr p)
    obtain r w' where p: "p = (r, w')" by (cases p)
    from assms(1)[unfolded disciplined_def, rule_format, of w] Inr
    have m: "raised_in (fst (m w)) = []" by simp
    from assms(2)[of r, unfolded disciplined_def, rule_format, of w'] Inr p m
    show ?thesis
      by (auto simp: fst_pbind snd_pbind split: sum.splits pyerr.splits)
  qed
qed

lemma disciplined_if:
  "(c \<Longrightarrow> disciplined zd m1) \<Longrightarrow> (\<not> c \<Longrightarrow> disciplined zd m2) \<Longrightarrow>
   disciplined zd (if c then m1 else m2)"
  by simp

lemma disciplined_case_prod:
  "(\<And>a b. disciplined zd (f a b)) \<Longrightarrow> disciplined zd (case p of (a, b) \<Rightarrow> f a b)"
  by (cases p) simp

lemma disciplined_case_prod2:
  "(\<And>a b. disciplined zd (f a b q)) \<Longrightarrow> disciplined zd ((case p of (a, b) \<Rightarrow> f a b) q)"
  by (cases p) simp

lemma disciplined_case_option:
  "(x = None \<Longrightarrow> disciplined zd m1) \<Longrightarrow> (\<And>y. x = Some y \<Longrightarrow> disciplined zd (m2 y)) \<Longrightarrow>
   disciplined zd (case x of None \<Rightarrow> m1 | Some y \<Rightarrow> m2 y)"
  by (cases x) simp_all

lemma disciplined_pfor:
  assumes "\<And>x s. x \<in> set xs \<Longrightarrow> disciplined zd (body x s)"
  shows "disciplined zd (pfor body xs s)"
  using assms
  by (induction xs arbitrary: s) (auto intro!: disciplined_bind disciplined_return)

lemma disciplined_getitem:
  "0 \<le> j \<Longrightarrow> j < int (length xs) \<Longrightarrow> disciplined zd (plift (getitem xs j))"
  by (simp add: getitem_def plift_def disciplined_return)

lemmas disciplined_intros = disciplined_bind disciplined_call disciplined_return
  disciplined_raise_zd disciplined_if disciplined_case_prod disciplined_case_prod2
  disciplined_case_option disciplined_pfor


section \<open>The drop-top flag\<close>





lemmas eval_defs = cd_train_def cd_batch.simps cd_step_def cd_print_def cd_log_def
  fg_train_def fg_batch.simps fg_step_def fg_print_def fg_log_def fg_log_part.simps
  call_defs preturn_def praise_def pbind_def pcall_def local_call_def plift_def
  envW_def envF_def cdW_def cdW_default_def fgW_def baseW_def cd_init_def fg_init_def ok_def
  engine.defs cd_engine.defs fg_engine.defs reading_def Let_def
  getitem_def str_int_def

lemma py_range_two: "py_range 2 = [0, 1]"
  by (simp add: py_range_def eval_nat_numeral)

lemma str_nat_digit: "n < 10 \<Longrightarrow> str_nat n = [''0123456789'' ! n]"
  by (simp add: str_nat.simps)


section \<open>Exceptions\<close>

lemma cd_batch_disciplined:
  "disciplined (print_freq = 0) (cd_batch env self epoch max_epoch num_batches print_freq x s)"
  apply (cases x; cases s; hypsubst_thin)
  unfolding cd_batch.simps cd_step_def cd_print_def cd_log_def call_defs Let_def
  by (intro disciplined_intros allI impI; (simp add: local_call_def)?)

lemma cd_train_disciplined:
  "disciplined (print_freq = 0)
     (cd_train env self epoch max_epoch loader fixbase_epoch open_layers print_freq)"
  unfolding cd_train_def call_defs Let_def
  by (intro disciplined_intros cd_batch_disciplined allI impI; simp?)

lemma fg_log_part_disciplined: "disciplined zd (fg_log_part wr n_iter x u)"
proof -
  obtain i u0 weights where x: "x = (i, u0, weights)" by (cases x) auto
  show ?thesis
    unfolding x fg_log_part.simps call_defs
    by (intro disciplined_intros disciplined_getitem allI impI; (auto simp: py_range_def)?)
qed

lemma fg_batch_disciplined:
  "disciplined (print_freq = 0) (fg_batch env self epoch max_epoch num_batches print_freq x s)"
  apply (cases x; cases s; hypsubst_thin)
  unfolding fg_batch.simps fg_step_def fg_print_def fg_log_def call_defs Let_def
  by (intro disciplined_intros fg_log_part_disciplined allI impI; simp?)

lemma fg_train_disciplined:
  "disciplined (print_freq = 0)
     (fg_train env self epoch max_epoch loader fixbase_epoch open_layers print_freq)"
  unfolding fg_train_def call_defs Let_def
  by (intro disciplined_intros fg_batch_disciplined allI impI; simp?)

lemma raised_in_mem: "(c, Raises e) \<in> set tr \<Longrightarrow> e \<in> set (raised_in tr)"
  by (induction tr) (auto simp: raised_in_def List.map_filter_def)

lemma raised_in_last:
  "tr \<noteq> [] \<Longrightarrow> snd (last tr) = Raises e \<Longrightarrow> \<exists>c. last tr = (c, Raises e)"
  by (cases "last tr") simp

lemma disciplined_propagates:
  assumes "disciplined zd m"
  shows "(\<forall>c e. (c, Raises e) \<in> set (fst (m w)) \<longrightarrow> snd (m w) = Inl (Raised e)) \<and>
         (\<forall>err. snd (m w) = Inl err \<longrightarrow>
            (\<exists>c e. err = Raised e \<and> fst (m w) \<noteq> [] \<and> last (fst (m w)) = (c, Raises e)) \<or>
            (err = ZeroDivisionError \<and> zd \<and> raised_in (fst (m w)) = []))"
proof (intro conjI allI impI)
  fix c e assume "(c, Raises e) \<in> set (fst (m w))"
  then have "e \<in> set (raised_in (fst (m w)))" by (rule raised_in_mem)
  with assms[unfolded disciplined_def, rule_format, of w] show "snd (m w) = Inl (Raised e)"
    by (auto split: sum.splits pyerr.splits)
next
  fix err assume "snd (m w) = Inl err"
  with assms[unfolded disciplined_def, rule_format, of w]
  show "(\<exists>c e. err = Raised e \<and> fst (m w) \<noteq> [] \<and> last (fst (m w)) = (c, Raises e)) \<or>
        (err = ZeroDivisionError \<and> zd \<and> raised_in (fst (m w)) = [])"
    by (cases err) (auto dest: raised_in_last)
qed

text \<open>C5. In both engines, when a call to a collaborator raises an exception, \<^verbatim>\<open>train\<close>
  ends with that same exception; and when \<^verbatim>\<open>train\<close> ends with an error, it is the
  exception its last call raised, or the \<^verbatim>\<open>ZeroDivisionError\<close> of the interpreter for
  \<^verbatim>\<open>print_freq = 0\<close>, with no call having raised: the engines have no error branch of
  their own.\<close>

theorem train_propagates_exceptions:
  "(\<forall>c e. (c, Raises e) \<in> set (fst (cd_train env self epoch max_epoch loader fixbase_epoch
          open_layers print_freq w)) \<longrightarrow>
      snd (cd_train env self epoch max_epoch loader fixbase_epoch open_layers print_freq w)
        = Inl (Raised e)) \<and>
   (\<forall>err. snd (cd_train env self epoch max_epoch loader fixbase_epoch open_layers print_freq w)
        = Inl err \<longrightarrow>
      (\<exists>c e. err = Raised e \<and>
         fst (cd_train env self epoch max_epoch loader fixbase_epoch open_layers print_freq w) \<noteq> [] \<and>
         last (fst (cd_train env self epoch max_epoch loader fixbase_epoch open_layers print_freq w))
           = (c, Raises e)) \<or>
      (err = ZeroDivisionError \<and> print_freq = 0 \<and>
         raised_in (fst (cd_train env self epoch max_epoch loader fixbase_epoch open_layers
           print_freq w)) = [])) \<and>
   (\<forall>c e. (c, Raises e) \<in> set (fst (fg_train env' self' epoch' max_epoch' loader' fixbase_epoch'
          open_layers' print_freq' w')) \<longrightarrow>
      snd (fg_train env' self' epoch' max_epoch' loader' fixbase_epoch' open_layers' print_freq' w')
        = Inl (Raised e)) \<and>
   (\<forall>err. snd (fg_train env' self' epoch' max_epoch' loader' fixbase_epoch' open_layers'
          print_freq' w') = Inl err \<longrightarrow>
      (\<exists>c e. err = Raised e \<and>
         fst (fg_train env' self' epoch' max_epoch' loader' fixbase_epoch' open_layers'
           print_freq' w') \<noteq> [] \<and>
         last (fst (fg_train env' self' epoch' max_epoch' loader' fixbase_epoch' open_layers'
           print_freq' w')) = (c, Raises e)) \<or>
      (err = ZeroDivisionError \<and> print_freq' = 0 \<and>
         raised_in (fst (fg_train env' self' epoch' max_epoch' loader' fixbase_epoch' open_layers'
           print_freq' w')) = []))"
proof -
  have cd: "disciplined (print_freq = 0)
     (cd_train env self epoch max_epoch loader fixbase_epoch open_layers print_freq)"
    by (rule cd_train_disciplined)
  have fg: "disciplined (print_freq' = 0)
     (fg_train env' self' epoch' max_epoch' loader' fixbase_epoch' open_layers' print_freq')"
    by (rule fg_train_disciplined)
  from disciplined_propagates[OF cd, of w] disciplined_propagates[OF fg, of w']
  show ?thesis by blast
qed





section \<open>The gradient steps of a batch\<close>









theorem train_propagates_exceptions_witness:
  "(Backward 163, Raises ''RuntimeError'')
     \<in> set (fst (cd_train envF cdW 4 10 \<lparr> len = 1, batches = [7] \<rparr> 0 None 1 0)) \<and>
   snd (cd_train envF cdW 4 10 \<lparr> len = 1, batches = [7] \<rparr> 0 None 1 0)
     = Inl (Raised ''RuntimeError'') \<and>
   (Backward 71, Raises ''RuntimeError'')
     \<in> set (fst (fg_train envF fgW 4 10 \<lparr> len = 1, batches = [7] \<rparr> 0 None 1 0)) \<and>
   snd (fg_train envF fgW 4 10 \<lparr> len = 1, batches = [7] \<rparr> 0 None 1 0)
     = Inl (Raised ''RuntimeError'') \<and>
   snd (cd_train envW cdW 4 10 \<lparr> len = 1, batches = [7] \<rparr> 0 None 0 0) = Inl ZeroDivisionError \<and>
   raised_in (fst (cd_train envW cdW 4 10 \<lparr> len = 1, batches = [7] \<rparr> 0 None 0 0)) = []"
proof -
  have a: "(Backward 163, Raises ''RuntimeError'')
     \<in> set (fst (cd_train envF cdW 4 10 \<lparr> len = 1, batches = [7] \<rparr> 0 None 1 0))"
    by (simp add: eval_defs)
  have b: "(Backward 71, Raises ''RuntimeError'')
     \<in> set (fst (fg_train envF fgW 4 10 \<lparr> len = 1, batches = [7] \<rparr> 0 None 1 0))"
    by (simp add: eval_defs)
  have c: "snd (cd_train envW cdW 4 10 \<lparr> len = 1, batches = [7] \<rparr> 0 None 0 0)
      = Inl ZeroDivisionError"
    by (simp add: eval_defs)
  from train_propagates_exceptions[of envF cdW 4 10 "\<lparr> len = 1, batches = [7] \<rparr>" 0 None 1 0
      envF fgW 4 10 "\<lparr> len = 1, batches = [7] \<rparr>" 0 None 1 0] a b
  have d: "snd (cd_train envF cdW 4 10 \<lparr> len = 1, batches = [7] \<rparr> 0 None 1 0)
      = Inl (Raised ''RuntimeError'')"
    and e: "snd (fg_train envF fgW 4 10 \<lparr> len = 1, batches = [7] \<rparr> 0 None 1 0)
      = Inl (Raised ''RuntimeError'')"
    by blast+
  from train_propagates_exceptions[of envW cdW 4 10 "\<lparr> len = 1, batches = [7] \<rparr>" 0 None 0 0
      envF fgW 4 10 "\<lparr> len = 1, batches = [7] \<rparr>" 0 None 1 0] c
  have f: "raised_in (fst (cd_train envW cdW 4 10 \<lparr> len = 1, batches = [7] \<rparr> 0 None 0 0)) = []"
    by auto
  from a b c d e f show ?thesis by simp
qed

section \<open>The reports of a batch\<close>



















section \<open>The scheduler step\<close>























section \<open>The fix-base phase\<close>



lemma htrack_call:
  assumes "\<And>out. P h0 (c, out)"
  shows "tr_always (\<lambda>h. P (h0 @ h)) (pcall c ret f)"
  using assms by (simp add: tr_always_def pcall_run always_Cons split: sum.splits prod.splits)















section \<open>The backpropagated scalar\<close>
















section \<open>The meters of an epoch\<close>

lemma meters_after_append:
  "meters_after env (h @ h') = foldl (meter_step env) (meters_after env h) h'"
  by (simp add: meters_after_def)

lemma mtrack_bind:
  assumes "mtrack env ms m post1" "\<And>r. mtrack env (post1 r) (k r) post2"
  shows "mtrack env ms (pbind m k) post2"
  unfolding mtrack_def
proof (intro allI impI)
  fix h0 w
  assume h0: "meters_after env h0 = ms"
  from assms(1)[unfolded mtrack_def, rule_format, OF h0, of w]
  have m1: "always (\<lambda>h. reported_fresh env (h0 @ h)) (fst (m w))"
    and m2: "case snd (m w) of Inl err \<Rightarrow> True
       | Inr (r, w') \<Rightarrow> meters_after env (h0 @ fst (m w)) = post1 r"
    by simp_all
  show "always (\<lambda>h. reported_fresh env (h0 @ h)) (fst (pbind m k w)) \<and>
     (case snd (pbind m k w) of Inl err \<Rightarrow> True
      | Inr (r, w') \<Rightarrow> meters_after env (h0 @ fst (pbind m k w)) = post2 r)"
  proof (cases "snd (m w)")
    case (Inl err)
    with m1 show ?thesis by (simp add: fst_pbind snd_pbind)
  next
    case (Inr p)
    obtain r w' where p: "p = (r, w')" by (cases p)
    from m2 Inr p have "meters_after env (h0 @ fst (m w)) = post1 r" by simp
    from assms(2)[of r, unfolded mtrack_def, rule_format, OF this, of w'] m1 Inr p
    show ?thesis by (auto simp: fst_pbind snd_pbind always_append split: sum.splits)
  qed
qed

lemma mtrack_call:
  assumes "\<And>h out. meters_after env h = ms \<Longrightarrow> reported_fresh env h (c, out)"
    "\<And>ms' out. meter_step env ms' (c, out) = ms'"
  shows "mtrack env ms (pcall c ret f) (\<lambda>_. ms)"
  using assms
  by (auto simp: mtrack_def pcall_run always_Cons meters_after_append split: sum.splits)

lemma mtrack_meter_update: "mtrack env ms (meter_update env name v n ms) (\<lambda>r. r)"
  by (auto simp: mtrack_def meter_update_def pbind_pcall_run preturn_run always_Cons
      meters_after_append local_call_def meter_step_def reported_fresh_def split: sum.splits)

lemma mtrack_return: "mtrack env ms (preturn r) (\<lambda>_. ms)"
  by (simp add: mtrack_def preturn_run)

lemma mtrack_return_pair: "mtrack env ms (preturn (ms, x)) fst"
  by (simp add: mtrack_def preturn_run)

lemma mtrack_raise: "mtrack env ms (praise err) (\<lambda>_. ms)"
  by (simp add: mtrack_def praise_run)

lemma mtrack_plift: "mtrack env ms (plift x) (\<lambda>_. ms)"
  by (simp add: plift_def mtrack_return mtrack_raise split: sum.splits)

lemma mtrack_if:
  "(c \<Longrightarrow> mtrack env ms m1 post) \<Longrightarrow> (\<not> c \<Longrightarrow> mtrack env ms m2 post) \<Longrightarrow>
   mtrack env ms (if c then m1 else m2) post"
  by simp

lemma mtrack_case_prod:
  "(\<And>a b. mtrack env ms (f a b) post) \<Longrightarrow> mtrack env ms (case p of (a, b) \<Rightarrow> f a b) post"
  by (cases p) simp

lemma mtrack_case_prod2:
  "(\<And>a b. mtrack env ms (f a b q) post) \<Longrightarrow> mtrack env ms ((case p of (a, b) \<Rightarrow> f a b) q) post"
  by (cases p) simp

lemma mtrack_case_option:
  "(x = None \<Longrightarrow> mtrack env ms m1 post) \<Longrightarrow> (\<And>y. x = Some y \<Longrightarrow> mtrack env ms (m2 y) post) \<Longrightarrow>
   mtrack env ms (case x of None \<Rightarrow> m1 | Some y \<Rightarrow> m2 y) post"
  by (cases x) simp_all

lemma mtrack_pfor_unit:
  assumes "\<And>x s. mtrack env ms (body x s) (\<lambda>_. ms)"
  shows "mtrack env ms (pfor body xs s) (\<lambda>_. ms)"
proof (induction xs arbitrary: s)
  case Nil
  show ?case by (simp add: mtrack_return)
next
  case (Cons x xs)
  have "mtrack env ms (pbind (body x s) (pfor body xs)) (\<lambda>_. ms)"
    by (rule mtrack_bind[OF assms]) (rule Cons.IH)
  thus ?case by simp
qed

lemma mtrack_pfor_state:
  assumes "\<And>x s. mtrack env (fst s) (body x s) fst"
  shows "mtrack env ms (pfor body xs (ms, e)) fst"
proof -
  have "mtrack env (fst s) (pfor body xs s) fst" for s
  proof (induction xs arbitrary: s)
    case Nil
    show ?case by (cases s) (simp add: mtrack_return_pair)
  next
    case (Cons x xs)
    have "mtrack env (fst s) (pbind (body x s) (pfor body xs)) fst"
      by (rule mtrack_bind[OF assms]) (rule Cons.IH)
    thus ?case by simp
  qed
  from this[of "(ms, e)"] show ?thesis by simp
qed

lemma mtrack_case_prod_fst:
  "(\<And>a b. mtrack env a (f a b) post) \<Longrightarrow> mtrack env (fst p) (case p of (a, b) \<Rightarrow> f a b) post"
  by (cases p) simp

lemma mfresh_bind:
  assumes "mtrack env ms m post1" "\<And>r. mfresh env (post1 r) (k r)"
  shows "mfresh env ms (pbind m k)"
  unfolding mfresh_def
proof (intro allI impI)
  fix h0 w
  assume h0: "meters_after env h0 = ms"
  from assms(1)[unfolded mtrack_def, rule_format, OF h0, of w]
  have m1: "always (\<lambda>h. reported_fresh env (h0 @ h)) (fst (m w))"
    and m2: "case snd (m w) of Inl err \<Rightarrow> True
       | Inr (r, w') \<Rightarrow> meters_after env (h0 @ fst (m w)) = post1 r"
    by simp_all
  show "always (\<lambda>h. reported_fresh env (h0 @ h)) (fst (pbind m k w))"
  proof (cases "snd (m w)")
    case (Inl err)
    with m1 show ?thesis by (simp add: fst_pbind)
  next
    case (Inr p)
    obtain r w' where p: "p = (r, w')" by (cases p)
    from m2 Inr p have "meters_after env (h0 @ fst (m w)) = post1 r" by simp
    from assms(2)[of r, unfolded mfresh_def, rule_format, OF this, of w'] m1 Inr p
    show ?thesis by (simp add: fst_pbind always_append)
  qed
qed

lemma mfresh_mtrack: "mtrack env ms m post \<Longrightarrow> mfresh env ms m"
  by (simp add: mtrack_def mfresh_def)

lemma mfresh_start:
  assumes "mfresh env (\<lambda>_. AverageMeter env) m"
  shows "tr_always (reported_fresh env) m"
  using assms[unfolded mfresh_def, rule_format, of "[]"]
  by (simp add: tr_always_def meters_after_def)

lemmas mtrack_intros = mtrack_bind mtrack_meter_update mtrack_return_pair mtrack_return
  mtrack_raise mtrack_plift mtrack_if mtrack_case_prod_fst mtrack_case_prod mtrack_case_prod2
  mtrack_case_option

lemmas reported_defs = reported_fresh_def meter_step_def scalar_meter_def reading_def

lemma cd_batch_mtrack:
  "mtrack env (fst s) (cd_batch env self epoch max_epoch num_batches print_freq x s) fst"
  apply (cases x; cases s; hypsubst_thin)
  unfolding cd_batch.simps cd_step_def cd_print_def cd_log_def call_defs_but_meter Let_def fst_conv
  apply (rule mtrack_intros | (rule mtrack_call; (simp add: reported_defs; fail)))+
  done

lemma cd_train_reported_fresh:
  "tr_always (reported_fresh env)
     (cd_train env self epoch max_epoch loader fixbase_epoch open_layers print_freq)"
  unfolding cd_train_def call_defs_but_meter Let_def
  apply (rule mfresh_start)
  apply (rule mfresh_bind mtrack_intros mtrack_pfor_state cd_batch_mtrack
      | (rule mtrack_call; (simp add: reported_defs; fail)) | rule mfresh_mtrack)+
  done

lemma fg_log_part_mtrack: "mtrack env ms (fg_log_part wr n_iter x u) (\<lambda>_. ms)"
proof -
  obtain i u0 weights where x: "x = (i, u0, weights)" by (cases x) auto
  show ?thesis
    unfolding x fg_log_part.simps call_defs_but_meter
    apply (rule mtrack_intros mtrack_pfor_unit | (rule mtrack_call; (simp add: reported_defs; fail)))+
    done
qed

lemma fg_batch_mtrack:
  "mtrack env (fst s) (fg_batch env self epoch max_epoch num_batches print_freq x s) fst"
  apply (cases x; cases s; hypsubst_thin)
  unfolding fg_batch.simps fg_step_def fg_print_def fg_log_def call_defs_but_meter Let_def fst_conv
  apply (rule mtrack_intros mtrack_pfor_unit fg_log_part_mtrack
      | (rule mtrack_call; (simp add: reported_defs; fail)))+
  done

lemma fg_train_reported_fresh:
  "tr_always (reported_fresh env)
     (fg_train env self epoch max_epoch loader fixbase_epoch open_layers print_freq)"
  unfolding fg_train_def call_defs_but_meter Let_def
  apply (rule mfresh_start)
  apply (rule mfresh_bind mtrack_intros mtrack_pfor_state fg_batch_mtrack
      | (rule mtrack_call; (simp add: reported_defs; fail)) | rule mfresh_mtrack)+
  done

text \<open>C4. Every run of \<^verbatim>\<open>train\<close> starts from new \<^verbatim>\<open>AverageMeter\<close> objects: the
  \<^verbatim>\<open>val\<close> and \<^verbatim>\<open>avg\<close> a progress line prints, and the average a scalar of the
  writer logs, are read from the meters obtained from new ones by the updates this very
  run has made so far, so they are determined by the batches of this call alone.\<close>

theorem train_meters_fresh:
  "always (reported_fresh env)
     (fst (cd_train env self epoch max_epoch loader fixbase_epoch open_layers print_freq w)) \<and>
   always (reported_fresh env')
     (fst (fg_train env' self' epoch' max_epoch' loader' fixbase_epoch' open_layers' print_freq'
        w'))"
  by (simp add: tr_alwaysD[OF cd_train_reported_fresh] tr_alwaysD[OF fg_train_reported_fresh])

theorem train_meters_fresh_witness:
  "38 < length (fst (cd_train envW cdW 4 10 \<lparr> len = 1, batches = [7] \<rparr> 0 None 1 0)) \<and>
   fst (fst (cd_train envW cdW 4 10 \<lparr> len = 1, batches = [7] \<rparr> 0 None 1 0) ! 38) =
     Print (Progress 5 10 1 1
       [(Batch_time, 19, 19), (Data_time, 1, 1), (Losses_t, 10, 10), (Losses_x, 9, 9),
        (Losses_c, 11, 11), (Losses_db_t, 13, 13), (Losses_db_x, 12, 12), (Losses_db_c, 14, 14),
        (Losses_b_db_t, 16, 16), (Losses_b_db_x, 15, 15), (Losses_b_db_c, 17, 17),
        (Losses_dep, 18, 18), (Accs, 90, 90)] 3 ''0:00:00'') \<and>
   reported_fresh envW
     (take 38 (fst (cd_train envW cdW 4 10 \<lparr> len = 1, batches = [7] \<rparr> 0 None 1 0)))
     (fst (cd_train envW cdW 4 10 \<lparr> len = 1, batches = [7] \<rparr> 0 None 1 0) ! 38) \<and>
   29 < length (fst (fg_train envW fgW 4 10 \<lparr> len = 1, batches = [7] \<rparr> 0 None 1 0)) \<and>
   fst (fst (fg_train envW fgW 4 10 \<lparr> len = 1, batches = [7] \<rparr> 0 None 1 0) ! 29) =
     AddScalar ''Train/Loss_t'' 9 4 \<and>
   reported_fresh envW
     (take 29 (fst (fg_train envW fgW 4 10 \<lparr> len = 1, batches = [7] \<rparr> 0 None 1 0)))
     (fst (fg_train envW fgW 4 10 \<lparr> len = 1, batches = [7] \<rparr> 0 None 1 0) ! 29)"
proof -
  have a: "38 < length (fst (cd_train envW cdW 4 10 \<lparr> len = 1, batches = [7] \<rparr> 0 None 1 0)) \<and>
   fst (fst (cd_train envW cdW 4 10 \<lparr> len = 1, batches = [7] \<rparr> 0 None 1 0) ! 38) =
     Print (Progress 5 10 1 1
       [(Batch_time, 19, 19), (Data_time, 1, 1), (Losses_t, 10, 10), (Losses_x, 9, 9),
        (Losses_c, 11, 11), (Losses_db_t, 13, 13), (Losses_db_x, 12, 12), (Losses_db_c, 14, 14),
        (Losses_b_db_t, 16, 16), (Losses_b_db_x, 15, 15), (Losses_b_db_c, 17, 17),
        (Losses_dep, 18, 18), (Accs, 90, 90)] 3 ''0:00:00'')"
    by (simp add: eval_defs)
  have b: "29 < length (fst (fg_train envW fgW 4 10 \<lparr> len = 1, batches = [7] \<rparr> 0 None 1 0)) \<and>
   fst (fst (fg_train envW fgW 4 10 \<lparr> len = 1, batches = [7] \<rparr> 0 None 1 0) ! 29) =
     AddScalar ''Train/Loss_t'' 9 4"
    by (simp add: eval_defs str_nat_digit py_range_two)
  note t = train_meters_fresh[of envW cdW 4 10 "\<lparr> len = 1, batches = [7] \<rparr>" 0 None 1 0
      envW fgW 4 10 "\<lparr> len = 1, batches = [7] \<rparr>" 0 None 1 0]
  have c: "always (reported_fresh envW)
      (fst (cd_train envW cdW 4 10 \<lparr> len = 1, batches = [7] \<rparr> 0 None 1 0))"
    by (rule t[THEN conjunct1])
  have d: "always (reported_fresh envW)
      (fst (fg_train envW fgW 4 10 \<lparr> len = 1, batches = [7] \<rparr> 0 None 1 0))"
    by (rule t[THEN conjunct2])
  from a c have e: "reported_fresh envW
     (take 38 (fst (cd_train envW cdW 4 10 \<lparr> len = 1, batches = [7] \<rparr> 0 None 1 0)))
     (fst (cd_train envW cdW 4 10 \<lparr> len = 1, batches = [7] \<rparr> 0 None 1 0) ! 38)"
    by (simp add: always_def)
  from b d have f: "reported_fresh envW
     (take 29 (fst (fg_train envW fgW 4 10 \<lparr> len = 1, batches = [7] \<rparr> 0 None 1 0)))
     (fst (fg_train envW fgW 4 10 \<lparr> len = 1, batches = [7] \<rparr> 0 None 1 0) ! 29)"
    by (simp add: always_def)
  from a b e f show ?thesis by simp
qed


section \<open>The histograms of the part weights\<close>

lemma getitem_in_bounds: "a < length xs \<Longrightarrow> getitem xs (int a) = Inr (xs ! a)"
  by (simp add: getitem_def Let_def)

lemma histogram_loop:
  fixes run :: "('e, 't, 'a, 'm, 'd) event list \<times> ('e pyerr + unit \<times> 'w)"
  assumes "b \<le> length weights"
    and "run = pfor (\<lambda>j _. pbind (plift (getitem weights j))
              (\<lambda>row. do_add_histogram wr (tag j) row n)) (map int [a..<b]) () w"
  shows "length (fst run) \<le> b - a \<and>
     (\<forall>k < length (fst run).
        fst (fst run ! k) = AddHistogram (tag (int (a + k))) (weights ! (a + k)) n) \<and>
     snd run \<noteq> Inl IndexError \<and>
     (\<forall>r. snd run = Inr r \<longrightarrow> length (fst run) = b - a)"
  using assms
proof (induction "b - a" arbitrary: a w run)
  case 0
  then show ?case by (simp add: preturn_run)
next
  case (Suc d)
  from Suc.hyps(2) have ab: "a < b" and d: "d = b - Suc a" by simp_all
  from ab Suc.prems have al: "a < length weights" by simp
  show ?case
  proof (cases "add_histogram wr (tag (int a)) (weights ! a) n w")
    case (Inl e)
    with ab al show ?thesis unfolding Suc.prems(2)
      by (simp add: upt_conv_Cons getitem_in_bounds plift_def pbind_preturn
          do_add_histogram_def pbind_pcall_run)
  next
    case (Inr p)
    obtain r w' where p: "p = (r, w')" by (cases p)
    define rest :: "('e, 't, 'a, 'm, 'd) event list \<times> ('e pyerr + unit \<times> 'w)"
      where "rest = pfor (\<lambda>j _. pbind (plift (getitem weights j))
              (\<lambda>row. do_add_histogram wr (tag j) row n)) (map int [Suc a..<b]) () w'"
    from Inr p ab al have run: "run =
        ((AddHistogram (tag (int a)) (weights ! a) n, Returns RNone) # fst rest, snd rest)"
      unfolding Suc.prems(2)
      by (simp add: rest_def upt_conv_Cons getitem_in_bounds plift_def pbind_preturn
          do_add_histogram_def pbind_pcall_run split: prod.splits)
    note ih = Suc.hyps(1)[OF d Suc.prems(1) rest_def]
    from ih have r1: "length (fst rest) \<le> b - Suc a" by simp
    from ih have r2: "fst (fst rest ! k) =
        AddHistogram (tag (int (Suc a + k))) (weights ! (Suc a + k)) n"
      if "k < length (fst rest)" for k using that by simp
    from ih have r3: "snd rest \<noteq> Inl IndexError" by simp
    from ih have r4: "length (fst rest) = b - Suc a" if "snd rest = Inr r" for r
      using that by (cases r) auto
    have "fst (((AddHistogram (tag (int a)) (weights ! a) n, Returns RNone) # fst rest) ! k)
          = AddHistogram (tag (int (a + k))) (weights ! (a + k)) n"
      if "k < Suc (length (fst rest))" for k
    proof (cases k)
      case 0
      then show ?thesis by simp
    next
      case (Suc k')
      with that r2[of k'] show ?thesis by simp
    qed
    with r1 r3 r4 ab show ?thesis unfolding run by auto
  qed
qed

text \<open>C10. For the part at index \<open>i\<close>, the histogram loop of lines 185-186 makes at most
  three calls of \<^verbatim>\<open>add_histogram\<close> and at most \<^verbatim>\<open>weights.size(0)\<close> of them; the call
  at position \<open>j\<close> has the tag \<^verbatim>\<open>Train/Part{i}/Batch{j}\<close> and the row \<^verbatim>\<open>weights[j, ...]\<close>
  with \<open>j\<close> below \<^verbatim>\<open>weights.size(0)\<close>, so the indexing never raises \<^verbatim>\<open>IndexError\<close>;
  a loop that returns has made exactly \<^verbatim>\<open>min(weights.size(0), 3)\<close> calls.\<close>

theorem fg_log_part_in_bounds:
  "(let run = (fg_log_part wr n_iter (i, (u, weights)) () w
              :: ('e, 't, 'a, 'm, 'd) event list \<times> ('e pyerr + unit \<times> 'w)) in
      length (fst run) \<le> 3 \<and> length (fst run) \<le> length weights \<and>
      (\<forall>j < length (fst run).
         fst (fst run ! j) =
           AddHistogram (''Train/Part'' @ str_int (int i) @ ''/Batch'' @ str_int (int j))
             (weights ! j) n_iter) \<and>
      snd run \<noteq> Inl IndexError \<and>
      (\<forall>r. snd run = Inr r \<longrightarrow> length (fst run) = min (length weights) 3))"
proof -
  define run :: "('e, 't, 'a, 'm, 'd) event list \<times> ('e pyerr + unit \<times> 'w)"
    where "run = fg_log_part wr n_iter (i, (u, weights)) () w"
  have n: "nat (min (int (length weights)) 3) = min (length weights) 3" by simp
  have run: "run = pfor (\<lambda>j _. pbind (plift (getitem weights j))
        (\<lambda>row. do_add_histogram wr
           (''Train/Part'' @ str_int (int i) @ ''/Batch'' @ str_int j) row n_iter))
      (map int [0..<min (length weights) 3]) () w"
    unfolding run_def fg_log_part.simps py_range_def n ..
  have le: "min (length weights) 3 \<le> length weights" by simp
  note h = histogram_loop[OF le run]
  from h have h1: "length (fst run) \<le> min (length weights) 3" by simp
  from h have h2: "\<forall>j < length (fst run). fst (fst run ! j) =
      AddHistogram (''Train/Part'' @ str_int (int i) @ ''/Batch'' @ str_int (int j))
        (weights ! j) n_iter" by simp
  from h have h3: "snd run \<noteq> Inl IndexError" by blast
  from h have h4: "\<forall>r. snd run = Inr r \<longrightarrow> length (fst run) = min (length weights) 3"
    by simp
  from h1 have "length (fst run) \<le> 3" "length (fst run) \<le> length weights" by simp_all
  with h2 h3 h4 show ?thesis unfolding Let_def run_def[symmetric] by blast
qed

theorem fg_log_part_in_bounds_witness:
  "(let run = (fg_log_part (the (writer fgW)) 4 (0, (11, [12, 13])) () (0::nat)
        :: (string, nat, int, unit, nat) event list \<times> (string pyerr + unit \<times> nat)) in
      map fst (fst run) = [AddHistogram ''Train/Part0/Batch0'' 12 4,
                           AddHistogram ''Train/Part0/Batch1'' 13 4] \<and>
      snd run = Inr ((), 2) \<and>
      (1::nat) < length (fst run) \<and>
      fst (fst run ! 1) =
        AddHistogram (''Train/Part'' @ str_int (int 0) @ ''/Batch'' @ str_int (int 1))
          ([12, 13] ! 1) 4 \<and>
      length (fst run) = min (length [12::nat, 13]) 3)"
proof -
  have a: "map fst (fst (fg_log_part (the (writer fgW)) 4 (0, (11, [12, 13])) () (0::nat)
        :: (string, nat, int, unit, nat) event list \<times> (string pyerr + unit \<times> nat)))
      = [AddHistogram ''Train/Part0/Batch0'' 12 4, AddHistogram ''Train/Part0/Batch1'' 13 4]"
    and b: "snd (fg_log_part (the (writer fgW)) 4 (0, (11, [12, 13])) () (0::nat)
        :: (string, nat, int, unit, nat) event list \<times> (string pyerr + unit \<times> nat)) = Inr ((), 2)"
    by (simp_all add: eval_defs str_nat_digit py_range_two)
  from arg_cong[OF a, of length]
  have c: "(1::nat) < length (fst (fg_log_part (the (writer fgW)) 4 (0, (11, [12, 13])) () (0::nat)
        :: (string, nat, int, unit, nat) event list \<times> (string pyerr + unit \<times> nat)))" by simp
  note t = fg_log_part_in_bounds[where 'm = unit and 'd = nat and wr = "the (writer fgW)"
      and n_iter = 4 and i = 0 and u = 11 and weights = "[12, 13]" and w = "0::nat",
      unfolded Let_def]
  note d = t[THEN conjunct2, THEN conjunct2, THEN conjunct1, rule_format, OF c]
  note e = t[THEN conjunct2, THEN conjunct2, THEN conjunct2, THEN conjunct2, rule_format, OF b]
  show ?thesis unfolding Let_def
    apply (intro conjI)
        apply (rule a)
       apply (rule b)
      apply (rule c)
     apply (rule d)
    apply (rule e)
    done
qed


section \<open>The control flow the engines share\<close>










end
